theory Spec2Isabelle
  imports Complex_Main "HOL-Library.Sublist" "HOL-Library.Char_ord"
    "HOL-Library.List_Lexorder" "HOL-Library.Product_Lexorder"
begin

section \<open>Exceptions\<close>

text \<open>
  Every \<^verbatim>\<open>raise\<close> of the Python source is a value of this type, carried in the left
  summand of a result \<open>exn + 'a\<close>. \<open>DatabaseError\<close> stands for whatever the database
  layer raises inside the \<^verbatim>\<open>try\<close> blocks of \<^verbatim>\<open>models.py\<close>; \<open>ServiceError\<close> for what
  an external capability (embedding model, language model, agent) raises.
\<close>

datatype exn =
    ValueError
  | IndexError
  | AssertionError
  | TypeError
  | AttributeError
  | DatabaseError
  | ServiceError
  | RequestException
  | HTTPError
  | JSONDecodeError

section \<open>Python string operations\<close>

text \<open>
  Strings are \<open>char list\<close>. The operations below are the ones the source applies to
  strings; case mapping and white space are those of ASCII text (Python's Unicode case
  tables for characters outside ASCII are not part of the model).
\<close>

text \<open>\<^verbatim>\<open>sub in s\<close>: \<open>sub\<close> occurs in \<open>s\<close> as a contiguous run.\<close>

fun py_in :: "string \<Rightarrow> string \<Rightarrow> bool" where
  "py_in sub [] = (sub = [])"
| "py_in sub (c # cs) = (prefix sub (c # cs) \<or> py_in sub cs)"

text \<open>\<^verbatim>\<open>sep.join(xs)\<close>\<close>

fun py_join :: "string \<Rightarrow> string list \<Rightarrow> string" where
  "py_join sep [] = []"
| "py_join sep [x] = x"
| "py_join sep (x # y # ys) = x @ sep @ py_join sep (y # ys)"

definition ascii_lower :: string where
  "ascii_lower = ''abcdefghijklmnopqrstuvwxyz''"

definition ascii_upper :: string where
  "ascii_upper = ''ABCDEFGHIJKLMNOPQRSTUVWXYZ''"


definition to_lower :: "char \<Rightarrow> char" where
  "to_lower c = (case map_of (zip ascii_upper ascii_lower) c of Some l \<Rightarrow> l | None \<Rightarrow> c)"


text \<open>\<^verbatim>\<open>s.lower()\<close>\<close>

definition py_lower :: "string \<Rightarrow> string" where
  "py_lower s = map to_lower s"



text \<open>White space of \<^verbatim>\<open>str.split()\<close> within ASCII: tab, LF, VT, FF, CR, FS, GS, RS, US, space.\<close>

definition is_space :: "char \<Rightarrow> bool" where
  "is_space c = (of_char c \<in> set [9, 10, 11, 12, 13, 28, 29, 30, 31, 32 :: nat])"





text \<open>\<^verbatim>\<open>str(n)\<close> for a non-negative integer.\<close>

definition digit_char :: "nat \<Rightarrow> char" where
  "digit_char d = ''0123456789'' ! (d mod 10)"

function str_of_nat :: "nat \<Rightarrow> string" where
  "str_of_nat n = (if n < 10 then [digit_char n] else str_of_nat (n div 10) @ [digit_char n])"
  by pat_completeness auto
termination
  by (relation "measure (\<lambda>n. n)") auto

declare str_of_nat.simps [simp del]

section \<open>The persistent store (\<^verbatim>\<open>src/database/models.py\<close>)\<close>

text \<open>
  One record per mapped class, one list of rows per table, rows in insertion order.
  The generated primary keys of chunks and messages and the server-side time stamps are
  not read by any function modelled here and are left out; a message's position in its
  table is its arrival order. \<open>chat_documents\<close> is the association table, a row being
  \<open>(chat_id, document_id)\<close>.
\<close>

record Document =
  doc_id :: string
  filename :: string
  originalName :: string
  fileSize :: int
  processed :: bool

record Chunk =
  documentId :: string
  content :: string
  chunkIndex :: int
  embedding :: string

record ChatSession =
  chat_id :: string
  name :: string

record ChatMessage =
  chatId :: string
  question :: string
  answer :: string

record store =
  documents :: "Document list"
  chunks :: "Chunk list"
  chat_sessions :: "ChatSession list"
  chat_documents :: "(string \<times> string) list"
  chat_messages :: "ChatMessage list"

text \<open>
  Each function of \<^verbatim>\<open>models.py\<close> runs its database work inside \<^verbatim>\<open>try\<close>, and on an
  exception rolls back and re-raises. The first argument \<open>fault\<close> of each model says
  whether the database raises during that call; then nothing is committed. A call is
  thus one transaction that either takes effect or raises: the re-read
  \<^verbatim>\<open>db.refresh\<close> that follows a successful \<^verbatim>\<open>db.commit\<close> in the creating functions is
  taken to succeed.
\<close>


definition get_chat_session :: "bool \<Rightarrow> store \<Rightarrow> string \<Rightarrow> exn + ChatSession option" where
  "get_chat_session fault s cid =
     (if fault then Inl DatabaseError
      else Inr (find (\<lambda>c. chat_id c = cid) (chat_sessions s)))"

text \<open>
  The relationship \<^verbatim>\<open>chat.documents\<close>: the documents joined to the chat through the
  association table, in the order of the association rows.
\<close>

definition session_documents :: "store \<Rightarrow> string \<Rightarrow> Document list" where
  "session_documents s cid =
     List.map_filter (\<lambda>(c, d). if c = cid then find (\<lambda>x. doc_id x = d) (documents s) else None)
       (chat_documents s)"

text \<open>
  \<^verbatim>\<open>delete_document\<close>: \<^verbatim>\<open>db.delete(doc)\<close> deletes the row, the chunks of the document
  (relationship \<^verbatim>\<open>chunks\<close>, \<^verbatim>\<open>cascade="all, delete-orphan"\<close>) and the document's rows of
  the \<^verbatim>\<open>secondary\<close> association table.
\<close>

definition delete_document :: "bool \<Rightarrow> store \<Rightarrow> string \<Rightarrow> exn + store" where
  "delete_document fault s document_id =
     (if fault then Inl DatabaseError
      else (case find (\<lambda>d. doc_id d = document_id) (documents s) of
              None \<Rightarrow> Inr s
            | Some doc \<Rightarrow>
                Inr (s\<lparr>documents := filter (\<lambda>d. doc_id d \<noteq> doc_id doc) (documents s),
                       chunks := filter (\<lambda>c. documentId c \<noteq> doc_id doc) (chunks s),
                       chat_documents :=
                         filter (\<lambda>(c, d). d \<noteq> doc_id doc) (chat_documents s)\<rparr>)))"

text \<open>
  \<^verbatim>\<open>get_chunks_for_documents\<close>: the chunks whose \<^verbatim>\<open>documentId\<close> is in the list, ordered by
  \<^verbatim>\<open>(documentId, chunkIndex)\<close>.
\<close>

definition get_chunks_for_documents :: "bool \<Rightarrow> store \<Rightarrow> string list \<Rightarrow> exn + Chunk list" where
  "get_chunks_for_documents fault s document_ids =
     (if fault then Inl DatabaseError
      else Inr (sort_key (\<lambda>c. (documentId c, chunkIndex c))
                  (filter (\<lambda>c. documentId c \<in> set document_ids) (chunks s))))"





text \<open>\<^verbatim>\<open>create_chat_message\<close>: one row appended to the message table.\<close>

definition create_chat_message :: "bool \<Rightarrow> store \<Rightarrow> string \<Rightarrow> string \<Rightarrow> string \<Rightarrow> exn + store" where
  "create_chat_message fault s cid q a =
     (if fault then Inl DatabaseError
      else Inr (s\<lparr>chat_messages :=
                    chat_messages s @ [\<lparr>chatId = cid, question = q, answer = a\<rparr>]\<rparr>))"

text \<open>\<^verbatim>\<open>get_chat_messages\<close>: the messages of the chat, oldest first.\<close>

definition get_chat_messages :: "bool \<Rightarrow> store \<Rightarrow> string \<Rightarrow> exn + ChatMessage list" where
  "get_chat_messages fault s cid =
     (if fault then Inl DatabaseError
      else Inr (filter (\<lambda>m. chatId m = cid) (chat_messages s)))"

text \<open>\<^verbatim>\<open>str(i)\<close> for an integer.\<close>

definition str_of_int :: "int \<Rightarrow> string" where
  "str_of_int i = (if i < 0 then CHR ''-'' # str_of_nat (nat (- i)) else str_of_nat (nat i))"

section \<open>External capabilities\<close>

text \<open>
  The embedding model, the language model, the tool-using agent, the HTTP transport and
  the database engine are not code of the repository. They are parameters of the
  model, collected in \<open>env\<close>; every theorem holds for all of them. An embedding is a
  list of rationals (the rounding of \<^verbatim>\<open>float32\<close> is not modelled).

  \<^item> \<open>embed_doc\<close>, \<open>embed_qry\<close>: the vector the embedding model gives a chunk text, a query;
  \<^item> \<open>embed_fault\<close>: whether the embedding service raises at a call site;
  \<^item> \<open>llm context q\<close>: what the retrieval chain's single model call returns for the
    stuffed context and the question (the fixed prompt template is inside the oracle);
  \<^item> \<open>agent tools q\<close>: what \<^verbatim>\<open>agent.run\<close> returns, given the three tools;
  \<^item> \<open>db_fault\<close>: whether the database raises at a call site of \<^verbatim>\<open>ask_question\<close>;
  \<^item> \<open>serper_api_key\<close>: the environment variable \<^verbatim>\<open>SERPER_API_KEY\<close>;
  \<^item> \<open>http_post key q\<close>: what \<^verbatim>\<open>requests.post\<close> gives, or the exception it raises;
  \<^item> \<open>exn_text\<close>: \<^verbatim>\<open>str(e)\<close> of an exception; \<open>py_repr\<close>: \<^verbatim>\<open>str\<close> of a JSON list or dict.
\<close>

type_synonym vec = "rat list"

datatype json =
    JNull
  | JBool bool
  | JNum int
  | JStr string
  | JArr "json list"
  | JObj "(string \<times> json) list"

record response =
  status_code :: nat
  body :: "json option"

datatype site = GetSession | GetChunks | SaveSystem | SaveDirect | SaveAgent

datatype embed_site = BuildIndex | DirectProbe | DirectChain | AgentTool | StoreIndex | StoreSearch

record agent_tools =
  system_info :: "string \<Rightarrow> string"
  pdf_search :: "string \<Rightarrow> exn + string"
  web_search :: "string \<Rightarrow> exn + string"

record env =
  embed_doc :: "string \<Rightarrow> vec"
  embed_qry :: "string \<Rightarrow> vec"
  embed_fault :: "embed_site \<Rightarrow> bool"
  llm :: "string \<Rightarrow> string \<Rightarrow> exn + string"
  agent :: "agent_tools \<Rightarrow> string \<Rightarrow> exn + string"
  db_fault :: "site \<Rightarrow> bool"
  serper_api_key :: "string option"
  http_post :: "string \<Rightarrow> string \<Rightarrow> exn + response"
  exn_text :: "exn \<Rightarrow> string"
  py_repr :: "json \<Rightarrow> string"

text \<open>\<^verbatim>\<open>embeddings.embed_documents(texts)\<close> and \<^verbatim>\<open>embeddings.embed_query(query)\<close>\<close>

definition embed_documents :: "env \<Rightarrow> embed_site \<Rightarrow> string list \<Rightarrow> exn + vec list" where
  "embed_documents e st txts =
     (if embed_fault e st then Inl ServiceError else Inr (map (embed_doc e) txts))"

definition embed_query :: "env \<Rightarrow> embed_site \<Rightarrow> string \<Rightarrow> exn + vec" where
  "embed_query e st q = (if embed_fault e st then Inl ServiceError else Inr (embed_qry e q))"

section \<open>The flat L2 index (\<^verbatim>\<open>faiss.IndexFlatL2\<close>)\<close>

text \<open>
  The index is the library's, modelled by its documented behaviour: exact search by
  squared Euclidean distance, nearest first, \<open>k\<close> labels per query, the label \<open>-1\<close>
  where fewer than \<open>k\<close> vectors are stored. Equal distances are taken in the order the
  vectors were added (\<open>sort_key\<close> is a stable insertion sort). The Python wrapper asserts
  that the query has the index's dimension and that \<open>k\<close> is positive.
\<close>

record faiss_index =
  dim :: nat
  xb :: "vec list"

definition l2_sqr :: "vec \<Rightarrow> vec \<Rightarrow> rat" where
  "l2_sqr x y = sum_list (map (\<lambda>(a, b). (a - b) * (a - b)) (zip x y))"

definition faiss_search :: "faiss_index \<Rightarrow> vec \<Rightarrow> int \<Rightarrow> exn + int list" where
  "faiss_search idx qv k =
     (if length qv \<noteq> dim idx \<or> k \<le> 0 then Inl AssertionError
      else (let n = length (xb idx);
                ranked = sort_key (\<lambda>i. l2_sqr (xb idx ! i) qv) [0..<n]
            in Inr (map int (take (nat k) ranked) @ replicate (nat k - n) (- 1))))"

text \<open>
  \<^verbatim>\<open>np.array(vectors).astype('float32')\<close>: rows of different lengths do not make a
  float array.
\<close>

definition np_array :: "vec list \<Rightarrow> exn + vec list" where
  "np_array vectors =
     (if list_ex (\<lambda>v. length v \<noteq> length (hd vectors)) vectors then Inl ValueError
      else Inr vectors)"

section \<open>\<^verbatim>\<open>VectorStore\<close> (\<^verbatim>\<open>src/services/vector_store.py\<close>)\<close>

record vector_store =
  texts :: "string list"
  index :: "faiss_index option"
  embedded_vectors :: "vec list option"

text \<open>
  \<^verbatim>\<open>create_index\<close>. The fields are assigned as the statements run, so an exception
  leaves the assignments made before it. \<^verbatim>\<open>embedded_vectors.shape[1]\<close> of the array of
  no vectors (shape \<^verbatim>\<open>(0,)\<close>) raises \<^verbatim>\<open>IndexError\<close>.
\<close>

definition create_index ::
  "env \<Rightarrow> vector_store \<Rightarrow> string list \<Rightarrow> (exn + faiss_index) \<times> vector_store" where
  "create_index e vs txts =
     (let vs1 = vs\<lparr>texts := txts\<rparr> in
      case embed_documents e StoreIndex txts of
        Inl x \<Rightarrow> (Inl x, vs1)
      | Inr vectors \<Rightarrow>
          (case np_array vectors of
             Inl x \<Rightarrow> (Inl x, vs1)
           | Inr arr \<Rightarrow>
               (let vs2 = vs1\<lparr>embedded_vectors := Some arr\<rparr> in
                case arr of
                  [] \<Rightarrow> (Inl IndexError, vs2)
                | v # _ \<Rightarrow>
                    (let idx = \<lparr>dim = length v, xb = arr\<rparr>
                     in (Inr idx, vs2\<lparr>index := Some idx\<rparr>)))))"

text \<open>Python list indexing: a negative index counts from the end.\<close>

definition py_index :: "'a list \<Rightarrow> int \<Rightarrow> exn + 'a" where
  "py_index xs i =
     (if 0 \<le> i \<and> i < int (length xs) then Inr (xs ! nat i)
      else if i < 0 \<and> - int (length xs) \<le> i then Inr (xs ! nat (int (length xs) + i))
      else Inl IndexError)"

text \<open>A result dictionary \<^verbatim>\<open>{"content": ..., "index": ...}\<close>.\<close>

record search_hit =
  hit_content :: string
  hit_index :: int

text \<open>The loop \<^verbatim>\<open>for idx in I[0]: if idx < len(self.texts): results.append(...)\<close>.\<close>

fun collect_results :: "string list \<Rightarrow> int list \<Rightarrow> exn + search_hit list" where
  "collect_results txts [] = Inr []"
| "collect_results txts (idx # rest) =
     (if idx < int (length txts) then
        (case py_index txts idx of
           Inl x \<Rightarrow> Inl x
         | Inr t \<Rightarrow>
             (case collect_results txts rest of
                Inl x \<Rightarrow> Inl x
              | Inr rs \<Rightarrow> Inr (\<lparr>hit_content = t, hit_index = idx\<rparr> # rs)))
      else collect_results txts rest)"

definition similarity_search :: "env \<Rightarrow> vector_store \<Rightarrow> string \<Rightarrow> int \<Rightarrow> exn + search_hit list" where
  "similarity_search e vs query k =
     (case (index vs, embedded_vectors vs) of
        (Some idx, Some _) \<Rightarrow>
          (case embed_query e StoreSearch query of
             Inl x \<Rightarrow> Inl x
           | Inr qv \<Rightarrow>
               (case faiss_search idx qv k of
                  Inl x \<Rightarrow> Inl x
                | Inr labels \<Rightarrow> collect_results (texts vs) labels))
      | _ \<Rightarrow> Inl ValueError)"

text \<open>
  \<^verbatim>\<open>build_langchain_faiss\<close> with \<^verbatim>\<open>as_retriever\<close>: the library's store embeds the texts,
  builds a flat L2 index of the dimension of the first vector and keeps the texts by
  position. Its search skips the label \<open>-1\<close>.
\<close>

record retriever =
  r_index :: faiss_index
  r_texts :: "string list"
  r_k :: int

definition SIMILARITY_TOP_K :: int where
  "SIMILARITY_TOP_K = 5"

definition build_langchain_faiss :: "env \<Rightarrow> string list \<Rightarrow> exn + retriever" where
  "build_langchain_faiss e txts =
     (case embed_documents e BuildIndex txts of
        Inl x \<Rightarrow> Inl x
      | Inr vectors \<Rightarrow>
          (case vectors of
             [] \<Rightarrow> Inl IndexError
           | v # _ \<Rightarrow>
               (case np_array vectors of
                  Inl x \<Rightarrow> Inl x
                | Inr arr \<Rightarrow>
                    Inr \<lparr>r_index = \<lparr>dim = length v, xb = arr\<rparr>, r_texts = txts,
                         r_k = SIMILARITY_TOP_K\<rparr>)))"

definition get_relevant_documents ::
  "env \<Rightarrow> embed_site \<Rightarrow> retriever \<Rightarrow> string \<Rightarrow> exn + string list" where
  "get_relevant_documents e st r q =
     (case embed_query e st q of
        Inl x \<Rightarrow> Inl x
      | Inr qv \<Rightarrow>
          (case faiss_search (r_index r) qv (r_k r) of
             Inl x \<Rightarrow> Inl x
           | Inr labels \<Rightarrow>
               Inr (map (\<lambda>i. r_texts r ! nat i) (filter (\<lambda>i. i \<noteq> - 1) labels))))"

section \<open>The web search tool (\<^verbatim>\<open>src/services/web_search.py\<close>)\<close>

text \<open>Truth value of a parsed JSON value, as \<^verbatim>\<open>if organic:\<close> reads it.\<close>

fun truthy :: "json \<Rightarrow> bool" where
  "truthy JNull = False"
| "truthy (JBool b) = b"
| "truthy (JNum n) = (n \<noteq> 0)"
| "truthy (JStr t) = (t \<noteq> [])"
| "truthy (JArr xs) = (xs \<noteq> [])"
| "truthy (JObj kvs) = (kvs \<noteq> [])"

text \<open>\<^verbatim>\<open>x.get(key, default)\<close>: only a dict has the method.\<close>

fun py_get :: "json \<Rightarrow> string \<Rightarrow> json \<Rightarrow> exn + json" where
  "py_get (JObj kvs) k dflt = Inr (case map_of kvs k of Some v \<Rightarrow> v | None \<Rightarrow> dflt)"
| "py_get _ k dflt = Inl AttributeError"

text \<open>\<^verbatim>\<open>organic[:3]\<close>, as the sequence the generator then walks: a list gives its first
  three elements, a string its first three characters, anything else cannot be sliced.\<close>

fun slice3 :: "json \<Rightarrow> exn + json list" where
  "slice3 (JArr xs) = Inr (take 3 xs)"
| "slice3 (JStr t) = Inr (map (\<lambda>c. JStr [c]) (take 3 t))"
| "slice3 _ = Inl TypeError"

text \<open>A value inside an f-string.\<close>

fun py_str :: "env \<Rightarrow> json \<Rightarrow> string" where
  "py_str e JNull = ''None''"
| "py_str e (JBool b) = (if b then ''True'' else ''False'')"
| "py_str e (JNum n) = str_of_int n"
| "py_str e (JStr t) = t"
| "py_str e v = py_repr e v"

text \<open>One result line:
  \<^verbatim>\<open>f"{r.get('title')}: {r.get('link')}\n{r.get('snippet', r.get('description', ''))}"\<close>.\<close>

definition format_result :: "env \<Rightarrow> json \<Rightarrow> exn + string" where
  "format_result e r =
     (case py_get r ''title'' JNull of
        Inl x \<Rightarrow> Inl x
      | Inr title \<Rightarrow>
          (case py_get r ''link'' JNull of
             Inl x \<Rightarrow> Inl x
           | Inr link \<Rightarrow>
               (case py_get r ''description'' (JStr []) of
                  Inl x \<Rightarrow> Inl x
                | Inr description \<Rightarrow>
                    (case py_get r ''snippet'' description of
                       Inl x \<Rightarrow> Inl x
                     | Inr snippet \<Rightarrow>
                         Inr (py_str e title @ '': '' @ py_str e link @ ''\<newline>'' @
                              py_str e snippet)))))"

fun format_results :: "env \<Rightarrow> json list \<Rightarrow> exn + string list" where
  "format_results e [] = Inr []"
| "format_results e (r # rs) =
     (case format_result e r of
        Inl x \<Rightarrow> Inl x
      | Inr line \<Rightarrow>
          (case format_results e rs of Inl x \<Rightarrow> Inl x | Inr ls \<Rightarrow> Inr (line # ls)))"

text \<open>The body of the \<^verbatim>\<open>try\<close> block of \<^verbatim>\<open>serper_search\<close>.\<close>

definition serper_request :: "env \<Rightarrow> string \<Rightarrow> string \<Rightarrow> exn + string" where
  "serper_request e api_key query =
     (case http_post e api_key query of
        Inl x \<Rightarrow> Inl x
      | Inr resp \<Rightarrow>
          (if 400 \<le> status_code resp \<and> status_code resp < 600 then Inl HTTPError
           else (case body resp of
                   None \<Rightarrow> Inl JSONDecodeError
                 | Some results \<Rightarrow>
                     (case py_get results ''organic'' (JArr []) of
                        Inl x \<Rightarrow> Inl x
                      | Inr organic \<Rightarrow>
                          (if truthy organic then
                             (case slice3 organic of
                                Inl x \<Rightarrow> Inl x
                              | Inr first3 \<Rightarrow>
                                  (case format_results e first3 of
                                     Inl x \<Rightarrow> Inl x
                                   | Inr ls \<Rightarrow> Inr (py_join ''\<newline>'' ls)))
                           else Inr ''No results found.'')))))"

text \<open>\<^verbatim>\<open>serper_search\<close>: the \<^verbatim>\<open>try\<close> block with its handler \<^verbatim>\<open>except Exception as e\<close>.\<close>

definition serper_search :: "env \<Rightarrow> string \<Rightarrow> string \<Rightarrow> exn + string" where
  "serper_search e api_key query =
     (case serper_request e api_key query of
        Inl x \<Rightarrow> Inr (''Serper Search error: '' @ exn_text e x)
      | Inr t \<Rightarrow> Inr t)"

text \<open>\<^verbatim>\<open>get_web_search_tool\<close>: the tool's function, or \<^verbatim>\<open>ValueError\<close> without an API key.\<close>

definition get_web_search_tool :: "env \<Rightarrow> exn + (string \<Rightarrow> exn + string)" where
  "get_web_search_tool e =
     (case serper_api_key e of
        None \<Rightarrow> Inl ValueError
      | Some api_key \<Rightarrow> if api_key = [] then Inl ValueError else Inr (serper_search e api_key))"

section \<open>The question-answering service (\<^verbatim>\<open>src/services/qa_service.py\<close>)\<close>

text \<open>
  What a run has asked of the external capabilities, in order: the embedding of the
  chunk texts for the index, the embedding of a query for a similarity search, the
  language model call of the retrieval chain, the entry into the agentic tier and the
  run of the agent.
\<close>

datatype event =
    EmbedDocuments "string list"
  | EmbedQuery string
  | LanguageModel string
  | AgentTier
  | AgentRun string

text \<open>
  The retrieval chain built by \<^verbatim>\<open>setup_qa_chain\<close> (chain type \<^verbatim>\<open>stuff\<close>): it retrieves
  for the query, joins the retrieved texts and calls the model once.
\<close>

definition qa_chain_call :: "env \<Rightarrow> retriever \<Rightarrow> string \<Rightarrow> (exn + string) \<times> event list" where
  "qa_chain_call e r q =
     (case get_relevant_documents e DirectChain r q of
        Inl x \<Rightarrow> (Inl x, [EmbedQuery q])
      | Inr docs \<Rightarrow>
          (llm e (py_join ''\<newline>\<newline>'' docs) q, [EmbedQuery q, LanguageModel q]))"

record qa_result =
  qa_answer :: string
  web_result :: "string option"

definition get_answer ::
  "env \<Rightarrow> retriever option \<Rightarrow> string \<Rightarrow> bool \<Rightarrow> (exn + qa_result) \<times> event list" where
  "get_answer e qa_chain q use_web_search =
     (case qa_chain of
        None \<Rightarrow> (Inl ValueError, [])
      | Some r \<Rightarrow>
          (case qa_chain_call e r q of
             (Inl x, tr) \<Rightarrow> (Inl x, tr)
           | (Inr a, tr) \<Rightarrow>
               (if use_web_search \<and>
                   (a = [] \<or> py_in ''I don't know'' a \<or> py_in ''not sure'' a)
                then (case get_web_search_tool e of
                        Inl x \<Rightarrow> (Inl x, tr)
                      | Inr search_tool \<Rightarrow>
                          (case search_tool q of
                             Inl x \<Rightarrow> (Inl x, tr)
                           | Inr w \<Rightarrow>
                               (Inr \<lparr>qa_answer =
                                       (if w \<noteq> [] then
                                          a @ ''\<newline>\<newline>---\<newline>Web Search Result:\<newline>'' @ w
                                        else a),
                                     web_result = Some w\<rparr>, tr)))
                else (Inr \<lparr>qa_answer = a, web_result = None\<rparr>, tr))))"

record documents_info =
  names :: "string list"
  count :: nat
  total_size :: int

definition system_info_tool_func :: "documents_info option \<Rightarrow> string \<Rightarrow> string" where
  "system_info_tool_func info q =
     (case info of
        None \<Rightarrow> ''No document information available.''
      | Some di \<Rightarrow>
          (if count di = 1 then
             ''Currently loaded document: '' @ hd (names di) @ ''\<newline>'' @
             ''Total file size: '' @ str_of_int (total_size di) @ '' bytes\<newline>''
           else
             ''Currently loaded documents ('' @ str_of_nat (count di) @ ''): '' @
             py_join '', '' (names di) @ ''\<newline>'' @
             ''Total file size: '' @ str_of_int (total_size di) @ '' bytes\<newline>'') @
          ''Document type: PDF\<newline>'' @ ''Status: Processed and indexed\<newline>'')"

definition pdf_search_tool_func :: "env \<Rightarrow> retriever \<Rightarrow> string \<Rightarrow> exn + string" where
  "pdf_search_tool_func e r q =
     (case get_relevant_documents e AgentTool r q of
        Inl x \<Rightarrow> Inl x
      | Inr docs \<Rightarrow>
          (if docs \<noteq> [] then Inr (py_join ''\<newline>'' docs)
           else Inr ''No relevant PDF content found.''))"

definition get_agent_answer ::
  "env \<Rightarrow> string \<Rightarrow> retriever \<Rightarrow> documents_info option \<Rightarrow> (exn + string) \<times> event list" where
  "get_agent_answer e q r info =
     (case get_web_search_tool e of
        Inl x \<Rightarrow> (Inl x, [AgentTier])
      | Inr web_tool \<Rightarrow>
          (agent e \<lparr>system_info = system_info_tool_func info,
                    pdf_search = pdf_search_tool_func e r,
                    web_search = web_tool\<rparr> q,
           [AgentTier, AgentRun q]))"

section \<open>The document service (\<^verbatim>\<open>src/services/document_service.py\<close>)\<close>

definition system_keywords :: "string list" where
  "system_keywords =
     [''any pdf'', ''pdf available'', ''documents available'', ''files available'',
      ''what pdf'', ''which pdf'', ''pdf loaded'', ''document loaded'',
      ''file info'', ''document info'', ''system status'', ''how many documents'',
      ''what documents'', ''which documents'']"

definition is_system_question :: "string \<Rightarrow> bool" where
  "is_system_question q = list_ex (\<lambda>keyword. py_in keyword (py_lower q)) system_keywords"

definition get_multi_document_retriever ::
  "env \<Rightarrow> store \<Rightarrow> string list \<Rightarrow> (exn + retriever option) \<times> event list" where
  "get_multi_document_retriever e s document_ids =
     (if document_ids = [] then (Inr None, [])
      else (case get_chunks_for_documents (db_fault e GetChunks) s document_ids of
              Inl x \<Rightarrow> (Inl x, [])
            | Inr cs \<Rightarrow>
                (if cs = [] then (Inr None, [])
                 else (let txts = map content cs in
                       case build_langchain_faiss e txts of
                         Inl x \<Rightarrow> (Inl x, [EmbedDocuments txts])
                       | Inr r \<Rightarrow> (Inr (Some r), [EmbedDocuments txts])))))"

text \<open>
  What \<^verbatim>\<open>ask_question\<close> returns is the dictionary's \<^verbatim>\<open>"result"\<close> string; \<open>tier\<close> records
  which \<^verbatim>\<open>return\<close> statement produced it.
\<close>

datatype tier = NoDocuments | NoContent | SystemStatus | Direct | Agentic | Apology

record reply =
  tier :: tier
  result :: string

definition no_documents_reply :: reply where
  "no_documents_reply =
     \<lparr>tier = NoDocuments,
      result = ''No documents found in this chat. Please add some documents first.''\<rparr>"

definition no_content_reply :: reply where
  "no_content_reply =
     \<lparr>tier = NoContent,
      result = ''No document content found. Please ensure documents are properly processed.''\<rparr>"

definition apology_reply :: reply where
  "apology_reply =
     \<lparr>tier = Apology,
      result = ''Sorry, I encountered an error while processing your question. Please try again.''\<rparr>"

definition system_answer :: "documents_info \<Rightarrow> string" where
  "system_answer di =
     (if count di = 1 then
        ''Yes, there is 1 PDF document in this chat: '' @ [CHR 0x27] @ hd (names di) @
        [CHR 0x27] @ ''.''
      else
        ''Yes, there are '' @ str_of_nat (count di) @ '' PDF documents in this chat: '' @
        py_join '', '' (names di) @ ''.'')"

text \<open>
  The inner \<^verbatim>\<open>try\<close> block of \<^verbatim>\<open>ask_question\<close> (direct retrieval). \<open>Some\<close> is its
  \<^verbatim>\<open>return direct_result\<close>; \<open>None\<close> is control leaving the block, by falling out of it
  or through its handler \<^verbatim>\<open>except Exception\<close>.
\<close>

definition direct_tier ::
  "env \<Rightarrow> store \<Rightarrow> string \<Rightarrow> string \<Rightarrow> retriever \<Rightarrow> (reply \<times> store) option \<times> event list" where
  "direct_tier e s cid q r =
     (case get_relevant_documents e DirectProbe r q of
        Inl x \<Rightarrow> (None, [EmbedQuery q])
      | Inr docs \<Rightarrow>
          (if docs \<noteq> [] then
             (case get_answer e (Some r) q False of
                (Inl x, tr) \<Rightarrow> (None, EmbedQuery q # tr)
              | (Inr direct_result, tr) \<Rightarrow>
                  (if qa_answer direct_result \<noteq> [] \<and>
                      \<not> py_in ''I don't know'' (qa_answer direct_result)
                   then (case create_chat_message (db_fault e SaveDirect) s cid q
                                (qa_answer direct_result) of
                           Inl x \<Rightarrow> (None, EmbedQuery q # tr)
                         | Inr s' \<Rightarrow>
                             (Some (\<lparr>tier = Direct, result = qa_answer direct_result\<rparr>, s'),
                              EmbedQuery q # tr))
                   else (None, EmbedQuery q # tr)))
           else (None, [EmbedQuery q])))"

text \<open>The agent-based answer that follows the inner block.\<close>

definition agentic_tier ::
  "env \<Rightarrow> store \<Rightarrow> string \<Rightarrow> string \<Rightarrow> retriever \<Rightarrow> documents_info \<Rightarrow>
     (reply \<times> store) \<times> event list" where
  "agentic_tier e s cid q r di =
     (case get_agent_answer e q r (Some di) of
        (Inl x, tr) \<Rightarrow> ((apology_reply, s), tr)
      | (Inr a, tr) \<Rightarrow>
          (case create_chat_message (db_fault e SaveAgent) s cid q a of
             Inl x \<Rightarrow> ((apology_reply, s), tr)
           | Inr s' \<Rightarrow> ((\<lparr>tier = Agentic, result = a\<rparr>, s'), tr)))"

definition ask_question ::
  "env \<Rightarrow> store \<Rightarrow> string \<Rightarrow> string \<Rightarrow> reply \<times> store \<times> event list" where
  "ask_question e s cid q =
     (case get_chat_session (db_fault e GetSession) s cid of
        Inl x \<Rightarrow> (apology_reply, s, [])
      | Inr None \<Rightarrow> (no_documents_reply, s, [])
      | Inr (Some chat) \<Rightarrow>
          (let docs = session_documents s cid in
           if docs = [] then (no_documents_reply, s, [])
           else (case get_multi_document_retriever e s (map doc_id docs) of
                   (Inl x, tr) \<Rightarrow> (apology_reply, s, tr)
                 | (Inr None, tr) \<Rightarrow> (no_content_reply, s, tr)
                 | (Inr (Some r), tr) \<Rightarrow>
                     (let di = \<lparr>names = map originalName docs, count = length docs,
                                total_size = sum_list (map fileSize docs)\<rparr> in
                      if is_system_question q then
                        (case create_chat_message (db_fault e SaveSystem) s cid q
                                (system_answer di) of
                           Inl x \<Rightarrow> (apology_reply, s, tr)
                         | Inr s' \<Rightarrow>
                             (\<lparr>tier = SystemStatus, result = system_answer di\<rparr>, s', tr))
                      else (case direct_tier e s cid q r of
                              (Some (rep, s'), tr2) \<Rightarrow> (rep, s', tr @ tr2)
                            | (None, tr2) \<Rightarrow>
                                (case agentic_tier e s cid q r di of
                                   ((rep, s'), tr3) \<Rightarrow> (rep, s', tr @ tr2 @ tr3)))))))"




section \<open>The chunker (\<^verbatim>\<open>src/services/pdf_processor.py\<close>)\<close>

text \<open>
  \<^verbatim>\<open>PDFProcessor.chunk_text\<close> hands the text to a recursive character splitter of the
  \<^verbatim>\<open>langchain\<close> library, configured with a chunk size of 1000 and an overlap of 200
  characters, and numbers the pieces it returns.
\<close>

definition CHUNK_SIZE :: nat where
  "CHUNK_SIZE = 1000"

definition CHUNK_OVERLAP :: nat where
  "CHUNK_OVERLAP = 200"

text \<open>\<^verbatim>\<open>s.strip()\<close>\<close>

definition py_strip :: "string \<Rightarrow> string" where
  "py_strip s = rev (dropWhile is_space (rev (dropWhile is_space s)))"

text \<open>
  Modelled from the spec: the text splitter, which is the library's and not in the
  repository's files. The spec (section 4.1) describes recursive splitting on the
  largest available boundary (paragraph, then line, then word, then character) such
  that each chunk's length is at most the configured maximum, with the configured
  overlap between consecutive chunks, no chunk for the empty text, and a hard split by
  character count of a unit longer than the maximum. The definitions from \<open>join_docs\<close>
  to \<open>split_text\<close> spell this out: pieces shorter than the maximum are merged greedily
  into chunks, a chunk is closed when the next piece would overflow it, and the next
  chunk starts with the trailing pieces of the closed one that fit the overlap; a piece
  that is too long is split again on the next boundary.
\<close>

definition join_docs :: "string list \<Rightarrow> string list" where
  "join_docs cur = (let t = py_strip (concat cur) in if t = [] then [] else [t])"

text \<open>
  Modelled from the spec: the overlap between consecutive chunks. Pieces are dropped
  from the front of the chunk just closed until what remains fits the overlap and
  leaves room for the next piece of length \<open>len_d\<close>; \<open>tot\<close> is the length of the pieces
  in \<open>cur\<close>.
\<close>

fun drop_front :: "nat \<Rightarrow> nat \<Rightarrow> nat \<Rightarrow> string list \<Rightarrow> nat \<Rightarrow> string list \<times> nat" where
  "drop_front csize overlap len_d [] tot = ([], tot)"
| "drop_front csize overlap len_d (x # rest) tot =
     (if tot > overlap \<or> (tot + len_d > csize \<and> tot > 0)
      then drop_front csize overlap len_d rest (tot - length x)
      else (x # rest, tot))"

text \<open>
  Modelled from the spec: merging pieces shorter than the maximum into chunks of at
  most the maximum length; \<open>cur\<close> is the chunk being built and \<open>tot\<close> its length.
\<close>

fun merge_loop :: "nat \<Rightarrow> nat \<Rightarrow> string list \<Rightarrow> string list \<Rightarrow> nat \<Rightarrow> string list" where
  "merge_loop csize overlap [] cur tot = join_docs cur"
| "merge_loop csize overlap (d # ds) cur tot =
     (if tot + length d > csize \<and> cur \<noteq> [] then
        join_docs cur @
        (case drop_front csize overlap (length d) cur tot of
           (cur', tot') \<Rightarrow> merge_loop csize overlap ds (cur' @ [d]) (tot' + length d))
      else merge_loop csize overlap ds (cur @ [d]) (tot + length d))"

definition merge_splits :: "nat \<Rightarrow> nat \<Rightarrow> string list \<Rightarrow> string list" where
  "merge_splits csize overlap splits = merge_loop csize overlap splits [] 0"

text \<open>
  Modelled from the spec: splitting on a boundary. The text is cut at the occurrences
  of a separator, left to right, each separator kept at the start of the piece that
  follows it; \<open>acc\<close> is the piece being read.
\<close>

function split_lit :: "string \<Rightarrow> string \<Rightarrow> string \<Rightarrow> string list" where
  "split_lit sep acc [] = [acc]"
| "split_lit sep acc (c # cs) =
     (if sep \<noteq> [] \<and> prefix sep (c # cs)
      then acc # split_lit sep sep (drop (length sep) (c # cs))
      else split_lit sep (acc @ [c]) cs)"
  by pat_completeness auto
termination
  by (relation "measure (\<lambda>(sep, acc, t). length t)") auto

definition split_keep :: "string \<Rightarrow> string \<Rightarrow> string list" where
  "split_keep sep t = filter (\<lambda>p. p \<noteq> []) (split_lit sep [] t)"

text \<open>
  Modelled from the spec: assembling the result from the pieces in order. A piece
  shorter than the maximum (\<open>Inl\<close>) joins the run of short pieces, which is merged into
  chunks when a long piece or the end comes; a long piece (\<open>Inr\<close>) contributes the
  chunks of its own split.
\<close>

fun assemble :: "nat \<Rightarrow> nat \<Rightarrow> (string + string list) list \<Rightarrow> string list \<Rightarrow> string list" where
  "assemble csize overlap [] good = (if good \<noteq> [] then merge_splits csize overlap good else [])"
| "assemble csize overlap (Inl p # ps) good = assemble csize overlap ps (good @ [p])"
| "assemble csize overlap (Inr cs # ps) good =
     (if good \<noteq> [] then merge_splits csize overlap good else []) @ cs @
     assemble csize overlap ps []"

text \<open>
  Modelled from the spec: the recursion over the boundaries (paragraph, line, word,
  character). The separators are tried in order. The empty separator splits into
  characters; a separator that occurs in the text splits it, and a piece that is still
  too long goes to the separators after it; a separator that does not occur is passed
  over.
\<close>

fun split_text :: "nat \<Rightarrow> nat \<Rightarrow> string list \<Rightarrow> string \<Rightarrow> string list" where
  "split_text csize overlap [] t =
     assemble csize overlap
       (map (\<lambda>p. if length p < csize then Inl p else Inr [p]) (filter (\<lambda>p. p \<noteq> []) [t])) []"
| "split_text csize overlap (sep # rest) t =
     (if sep = [] then
        assemble csize overlap
          (map (\<lambda>p. if length p < csize then Inl p else Inr [p]) (map (\<lambda>c. [c]) t)) []
      else if py_in sep t then
        assemble csize overlap
          (map (\<lambda>p. if length p < csize then Inl p
                     else Inr (if rest = [] then [p] else split_text csize overlap rest p))
             (split_keep sep t)) []
      else split_text csize overlap rest t)"

definition separators :: "string list" where
  "separators = [''\<newline>\<newline>'', ''\<newline>'', '' '', '''']"

text \<open>A dictionary \<^verbatim>\<open>{"content": ..., "chunk_index": ...}\<close> of \<^verbatim>\<open>chunk_text\<close>.\<close>

record chunk_dict =
  dict_content :: string
  chunk_index :: nat

text \<open>\<^verbatim>\<open>chunk_text\<close>: the pieces of the splitter, numbered by \<^verbatim>\<open>enumerate\<close>.\<close>

definition chunk_text :: "string \<Rightarrow> chunk_dict list" where
  "chunk_text t =
     map (\<lambda>(i, c). \<lparr>dict_content = c, chunk_index = i\<rparr>)
       (enumerate 0 (split_text CHUNK_SIZE CHUNK_OVERLAP separators t))"

section \<open>Example data\<close>

text \<open>
  A store with two documents, three chunks and two chats, used to run the definitions
  on concrete input.
\<close>

definition ex_doc1 :: Document where
  "ex_doc1 = \<lparr>doc_id = ''d1'', filename = ''a.pdf'', originalName = ''A.pdf'',
              fileSize = 10, processed = False\<rparr>"

definition ex_doc2 :: Document where
  "ex_doc2 = \<lparr>doc_id = ''d2'', filename = ''b.pdf'', originalName = ''B.pdf'',
              fileSize = 20, processed = False\<rparr>"

definition ex_store :: store where
  "ex_store =
     \<lparr>documents = [ex_doc1, ex_doc2],
      chunks =
        [\<lparr>documentId = ''d1'', content = ''alpha'', chunkIndex = 0, embedding = ''[1]''\<rparr>,
         \<lparr>documentId = ''d2'', content = ''beta'', chunkIndex = 0, embedding = ''[2]''\<rparr>,
         \<lparr>documentId = ''d1'', content = ''gamma'', chunkIndex = 1, embedding = ''[3]''\<rparr>],
      chat_sessions = [\<lparr>chat_id = ''c1'', name = ''New Chat''\<rparr>,
                       \<lparr>chat_id = ''c2'', name = ''Notes''\<rparr>],
      chat_documents = [(''c1'', ''d1''), (''c1'', ''d2''), (''c2'', ''d1'')],
      chat_messages = [\<lparr>chatId = ''c2'', question = ''q'', answer = ''a''\<rparr>]\<rparr>"

text \<open>
  An environment in which every service answers and the web request fails in
  transport: an embedding is the one-element vector of the text's length.
\<close>

definition ex_env :: env where
  "ex_env =
     \<lparr>embed_doc = (\<lambda>t. [of_nat (length t)]),
      embed_qry = (\<lambda>t. [of_nat (length t)]),
      embed_fault = (\<lambda>st. False),
      llm = (\<lambda>ctx q. Inr ''Paris''),
      agent = (\<lambda>tools q. Inr ''agent answer''),
      db_fault = (\<lambda>st. False),
      serper_api_key = Some ''key'',
      http_post = (\<lambda>k q. Inl RequestException),
      exn_text = (\<lambda>x. ''failure''),
      py_repr = (\<lambda>v. ''<value>'')\<rparr>"

text \<open>The vector store after \<^verbatim>\<open>create_index(["alpha", "beta"])\<close> on a fresh instance.\<close>

definition ex_vector_store :: vector_store where
  "ex_vector_store =
     snd (create_index ex_env \<lparr>texts = [], index = None, embedded_vectors = None\<rparr>
            [''alpha'', ''beta''])"




definition ex_retriever_c2 :: retriever where
  "ex_retriever_c2 =
     \<lparr>r_index = \<lparr>dim = 1, xb = [[5], [5]]\<rparr>, r_texts = [''alpha'', ''gamma''], r_k = 5\<rparr>"


definition ex_store_no_chunks :: store where
  "ex_store_no_chunks = ex_store\<lparr>chunks := []\<rparr>"



section \<open>Properties of the store operations\<close>

lemma find_mem_ex: "x \<in> set xs \<Longrightarrow> P x \<Longrightarrow> \<exists>y. find P xs = Some y \<and> P y"
  by (induction xs) auto


text \<open>
  Claim C9. For a document of the store, \<open>delete_document\<close> (when the database does not
  fail) returns a store from which the document, every chunk of it and every
  association row of it are gone: the three tables are the old ones without exactly
  those rows, so every other document, chunk and association is kept, in order; the
  chat sessions and the chat messages are unchanged.
\<close>

theorem delete_document_cascade:
  assumes "doc \<in> set (documents s)"
  shows "\<exists>s'. delete_document False s (doc_id doc) = Inr s'
     \<and> documents s' = filter (\<lambda>d. doc_id d \<noteq> doc_id doc) (documents s)
     \<and> chunks s' = filter (\<lambda>c. documentId c \<noteq> doc_id doc) (chunks s)
     \<and> chat_documents s' = filter (\<lambda>r. snd r \<noteq> doc_id doc) (chat_documents s)
     \<and> doc \<notin> set (documents s')
     \<and> (\<forall>c \<in> set (chunks s'). documentId c \<noteq> doc_id doc)
     \<and> (\<forall>r \<in> set (chat_documents s'). snd r \<noteq> doc_id doc)
     \<and> chat_sessions s' = chat_sessions s
     \<and> chat_messages s' = chat_messages s"
proof -
  from assms obtain y where y: "find (\<lambda>d. doc_id d = doc_id doc) (documents s) = Some y"
    and yid: "doc_id y = doc_id doc"
    using find_mem_ex [of doc "documents s" "\<lambda>d. doc_id d = doc_id doc"] by auto
  show ?thesis
    using y yid by (simp add: delete_document_def split_def)
qed

theorem delete_document_cascade_witness:
  "ex_doc1 \<in> set (documents ex_store)
   \<and> (\<exists>s'. delete_document False ex_store ''d1'' = Inr s'
        \<and> documents s' = [ex_doc2]
        \<and> map content (chunks s') = [''beta'']
        \<and> chat_documents s' = [(''c1'', ''d2'')]
        \<and> chat_sessions s' = chat_sessions ex_store
        \<and> chat_messages s' = chat_messages ex_store)"
proof -
  have h: "ex_doc1 \<in> set (documents ex_store)"
    by (simp add: ex_store_def)
  from delete_document_cascade [OF h] obtain s' where
    r: "delete_document False ex_store (doc_id ex_doc1) = Inr s'"
    and d: "documents s' = filter (\<lambda>d. doc_id d \<noteq> doc_id ex_doc1) (documents ex_store)"
    and c: "chunks s' = filter (\<lambda>c. documentId c \<noteq> doc_id ex_doc1) (chunks ex_store)"
    and a: "chat_documents s' = filter (\<lambda>r. snd r \<noteq> doc_id ex_doc1) (chat_documents ex_store)"
    and f: "chat_sessions s' = chat_sessions ex_store" "chat_messages s' = chat_messages ex_store"
    by blast
  have "documents s' = [ex_doc2]"
    using d by (simp add: ex_store_def ex_doc1_def ex_doc2_def)
  moreover have "map content (chunks s') = [''beta'']"
    using c by (simp add: ex_store_def ex_doc1_def)
  moreover have "chat_documents s' = [(''c1'', ''d2'')]"
    using a by (simp add: ex_store_def ex_doc1_def)
  moreover have "delete_document False ex_store ''d1'' = Inr s'"
    using r by (simp add: ex_doc1_def)
  ultimately show ?thesis
    using h f by simp
qed

section \<open>Properties of the web search tool\<close>

text \<open>
  Claim C8. For every query, API key and behaviour of the transport, \<open>serper_search\<close>
  returns a string and never raises. When the request raises (transport failure), when
  the response carries an error status, and when its body is not JSON, the string is
  the error text \<^verbatim>\<open>Serper Search error: ...\<close>. The function of the tool that
  \<open>get_web_search_tool\<close> hands to the answer composer therefore never raises either.
\<close>

theorem serper_search_total:
  "(\<exists>t. serper_search e api_key q = Inr t)
   \<and> (\<forall>x. http_post e api_key q = Inl x \<longrightarrow>
          serper_search e api_key q = Inr (''Serper Search error: '' @ exn_text e x))
   \<and> (\<forall>resp. http_post e api_key q = Inr resp \<and> 400 \<le> status_code resp
           \<and> status_code resp < 600 \<longrightarrow>
          serper_search e api_key q = Inr (''Serper Search error: '' @ exn_text e HTTPError))
   \<and> (\<forall>resp. http_post e api_key q = Inr resp
           \<and> \<not> (400 \<le> status_code resp \<and> status_code resp < 600)
           \<and> body resp = None \<longrightarrow>
          serper_search e api_key q =
            Inr (''Serper Search error: '' @ exn_text e JSONDecodeError))
   \<and> (\<forall>tool. get_web_search_tool e = Inr tool \<longrightarrow> (\<exists>t. tool q = Inr t))"
proof -
  have total: "\<exists>t. serper_search e k q = Inr t" for k
    by (cases "serper_request e k q") (simp_all add: serper_search_def)
  have tool: "\<exists>t. tool q = Inr t" if "get_web_search_tool e = Inr tool" for tool
    using that total
    by (auto simp: get_web_search_tool_def split: option.splits if_splits)
  show ?thesis
    using total tool
    by (auto simp: serper_search_def serper_request_def)
qed

theorem serper_search_total_witness:
  "http_post ex_env ''key'' ''rain'' = Inl RequestException
   \<and> serper_search ex_env ''key'' ''rain'' = Inr ''Serper Search error: failure''
   \<and> http_post (ex_env\<lparr>http_post := \<lambda>k q. Inr \<lparr>status_code = 500, body = None\<rparr>\<rparr>)
        ''key'' ''rain'' = Inr \<lparr>status_code = 500, body = None\<rparr>
   \<and> serper_search (ex_env\<lparr>http_post := \<lambda>k q. Inr \<lparr>status_code = 500, body = None\<rparr>\<rparr>)
        ''key'' ''rain'' = Inr ''Serper Search error: failure''
   \<and> http_post (ex_env\<lparr>http_post := \<lambda>k q. Inr \<lparr>status_code = 200, body = None\<rparr>\<rparr>)
        ''key'' ''rain'' = Inr \<lparr>status_code = 200, body = None\<rparr>
   \<and> serper_search (ex_env\<lparr>http_post := \<lambda>k q. Inr \<lparr>status_code = 200, body = None\<rparr>\<rparr>)
        ''key'' ''rain'' = Inr ''Serper Search error: failure''"
proof -
  have a: "http_post ex_env ''key'' ''rain'' = Inl RequestException"
    by (simp add: ex_env_def)
  have b: "http_post (ex_env\<lparr>http_post := \<lambda>k q. Inr \<lparr>status_code = 500, body = None\<rparr>\<rparr>)
        ''key'' ''rain'' = Inr \<lparr>status_code = 500, body = None\<rparr>"
    by simp
  have c: "http_post (ex_env\<lparr>http_post := \<lambda>k q. Inr \<lparr>status_code = 200, body = None\<rparr>\<rparr>)
        ''key'' ''rain'' = Inr \<lparr>status_code = 200, body = None\<rparr>"
    by simp
  have "serper_search ex_env ''key'' ''rain'' = Inr ''Serper Search error: failure''"
    using a serper_search_total [of ex_env "''key''" "''rain''"]
    by (simp add: ex_env_def)
  moreover have "serper_search (ex_env\<lparr>http_post := \<lambda>k q. Inr \<lparr>status_code = 500, body = None\<rparr>\<rparr>)
        ''key'' ''rain'' = Inr ''Serper Search error: failure''"
    using b serper_search_total
      [of "ex_env\<lparr>http_post := \<lambda>k q. Inr \<lparr>status_code = 500, body = None\<rparr>\<rparr>" "''key''" "''rain''"]
    by (simp add: ex_env_def)
  moreover have "serper_search (ex_env\<lparr>http_post := \<lambda>k q. Inr \<lparr>status_code = 200, body = None\<rparr>\<rparr>)
        ''key'' ''rain'' = Inr ''Serper Search error: failure''"
    using c serper_search_total
      [of "ex_env\<lparr>http_post := \<lambda>k q. Inr \<lparr>status_code = 200, body = None\<rparr>\<rparr>" "''key''" "''rain''"]
    by (simp add: ex_env_def)
  ultimately show ?thesis
    using a b c by simp
qed

section \<open>Properties of the vector store\<close>

text \<open>
  Claim C5. \<open>create_index\<close> over no texts does not return an index: it raises, with
  \<^verbatim>\<open>IndexError\<close> from \<^verbatim>\<open>shape[1]\<close> when the embedding call itself went through. The
  retriever of the document service, in contrast, returns \<^verbatim>\<open>None\<close> for an empty list
  of document ids.
\<close>

theorem create_index_empty_raises:
  "create_index e vs [] =
     (Inl (if embed_fault e StoreIndex then ServiceError else IndexError),
      vs\<lparr>texts := [],
         embedded_vectors :=
           (if embed_fault e StoreIndex then embedded_vectors vs else Some [])\<rparr>)
   \<and> get_multi_document_retriever e s [] = (Inr None, [])"
  by (simp add: create_index_def embed_documents_def np_array_def
      get_multi_document_retriever_def)

lemma retriever_none_without_chunks:
  "get_chunks_for_documents (db_fault e GetChunks) s document_ids = Inr [] \<Longrightarrow>
     get_multi_document_retriever e s document_ids = (Inr None, [])"
  by (simp add: get_multi_document_retriever_def)

text \<open>
  Claim C2. With two texts indexed and \<open>k = 5\<close>, \<open>similarity_search\<close> returns five
  results, not \<open>min 5 2 = 2\<close>: the index pads its labels with \<open>-1\<close>, the test
  \<^verbatim>\<open>idx < len(self.texts)\<close> lets \<open>-1\<close> through, and \<^verbatim>\<open>self.texts[-1]\<close> is the last
  text.
\<close>

theorem similarity_search_pads:
  "similarity_search ex_env ex_vector_store ''what'' 5 =
     Inr [\<lparr>hit_content = ''beta'', hit_index = 1\<rparr>,
          \<lparr>hit_content = ''alpha'', hit_index = 0\<rparr>,
          \<lparr>hit_content = ''beta'', hit_index = - 1\<rparr>,
          \<lparr>hit_content = ''beta'', hit_index = - 1\<rparr>,
          \<lparr>hit_content = ''beta'', hit_index = - 1\<rparr>]"
  by (simp add: similarity_search_def ex_vector_store_def create_index_def ex_env_def
      embed_documents_def embed_query_def np_array_def faiss_search_def l2_sqr_def py_index_def
      upt_rec Let_def eval_nat_numeral)

section \<open>Properties of the answer composer\<close>




lemma tier_fixed [simp]:
  "tier apology_reply = Apology" "tier no_documents_reply = NoDocuments"
  "tier no_content_reply = NoContent"
  by (simp_all add: apology_reply_def no_documents_reply_def no_content_reply_def)





lemma gmdr_Some:
  "get_multi_document_retriever e s ids = (Inr (Some r), tr) \<Longrightarrow>
     ids \<noteq> [] \<and> (\<exists>cs. cs \<noteq> [] \<and> get_chunks_for_documents False s ids = Inr cs
                   \<and> tr = [EmbedDocuments (map content cs)])"
  by (auto simp: get_multi_document_retriever_def get_chunks_for_documents_def Let_def
      split: sum.splits if_splits)






lemma py_in_sublist: "py_in sub s = sublist sub s"
  by (induction s) (auto simp: sublist_Cons_right)

lemma sublist_in_right: "sublist n b \<Longrightarrow> sublist n (a @ b)"
  by (simp add: sublist_append)

lemma sublist_in_left: "sublist n a \<Longrightarrow> sublist n (a @ b)"
  by (simp add: sublist_append)

lemma sublist_py_join: "n \<in> set ns \<Longrightarrow> sublist n (py_join sep ns)"
proof (induction sep ns rule: py_join.induct)
  case (1 sep)
  then show ?case by simp
next
  case (2 sep x)
  then show ?case by simp
next
  case (3 sep x y ys)
  show ?case
  proof (cases "n = x")
    case True
    then show ?thesis by simp
  next
    case False
    then have "sublist n (py_join sep (y # ys))" using 3 by auto
    then show ?thesis
      by (simp add: sublist_in_right)
  qed
qed

text \<open>
  Claim C1 (amended). For a chat whose retriever is built (it has documents, they have
  chunks, and the embedding of the chunk texts for the index went through), a system
  question and a database that records the message: \<open>ask_question\<close> returns from the
  system-status tier the answer computed from the session's documents alone; the answer
  contains the number of documents and the original name of each of them. The only
  external call of the run is the embedding of the chunk texts when the retriever is
  built: no query embedding, no language model call, no agent.
\<close>

theorem system_status_answer:
  assumes chat: "get_chat_session (db_fault e GetSession) s cid = Inr (Some chat)"
    and retr: "get_multi_document_retriever e s (map doc_id (session_documents s cid)) =
                 (Inr (Some r), tr0)"
    and sys: "is_system_question q"
    and save: "\<not> db_fault e SaveSystem"
  shows "\<exists>rep s' txts. ask_question e s cid q = (rep, s', [EmbedDocuments txts])
           \<and> tier rep = SystemStatus
           \<and> result rep = system_answer
                \<lparr>names = map originalName (session_documents s cid),
                 count = length (session_documents s cid),
                 total_size = sum_list (map fileSize (session_documents s cid))\<rparr>
           \<and> py_in (str_of_nat (length (session_documents s cid))) (result rep)
           \<and> (\<forall>d \<in> set (session_documents s cid). py_in (originalName d) (result rep))"
proof -
  let ?docs = "session_documents s cid"
  let ?di = "\<lparr>names = map originalName ?docs, count = length ?docs,
              total_size = sum_list (map fileSize ?docs)\<rparr>"
  from gmdr_Some [OF retr] obtain cs :: "Chunk list" where
    tr0: "tr0 = [EmbedDocuments (map content cs)]" and ne: "?docs \<noteq> []"
    by auto
  have run: "ask_question e s cid q =
      (\<lparr>tier = SystemStatus, result = system_answer ?di\<rparr>,
       s\<lparr>chat_messages := chat_messages s @
           [\<lparr>chatId = cid, question = q, answer = system_answer ?di\<rparr>]\<rparr>,
       [EmbedDocuments (map content cs)])"
    using chat retr sys save ne tr0
    by (simp add: ask_question_def Let_def create_chat_message_def)
  have eq1: "system_answer ?di =
      ''Yes, there is 1 PDF document in this chat: '' @
      ([CHR 0x27] @ hd (map originalName ?docs) @ [CHR 0x27] @ ''.'')"
    if "length ?docs = 1"
    using that by (simp add: system_answer_def)
  have eqn: "system_answer ?di =
      (''Yes, there are '' @ str_of_nat (length ?docs)) @
      ('' PDF documents in this chat: '' @ (py_join '', '' (map originalName ?docs) @ ''.''))"
    if "length ?docs \<noteq> 1"
    using that by (simp add: system_answer_def)
  have cnt: "sublist (str_of_nat (length ?docs)) (system_answer ?di)"
  proof (cases "length ?docs = 1")
    case True
    have "''Yes, there is 1 PDF document in this chat: '' =
          ''Yes, there is '' @ str_of_nat 1 @ '' PDF document in this chat: ''"
      by (simp add: str_of_nat.simps digit_char_def)
    then have "sublist (str_of_nat 1) ''Yes, there is 1 PDF document in this chat: ''"
      by (metis sublist_appendI)
    then have "sublist (str_of_nat (length ?docs)) ''Yes, there is 1 PDF document in this chat: ''"
      by (simp only: True)
    then show ?thesis
      unfolding eq1 [OF True] by (rule sublist_in_left)
  next
    case False
    show ?thesis
      unfolding eqn [OF False] by (rule sublist_in_left) (rule sublist_append_leftI)
  qed
  have nms: "sublist (originalName d) (system_answer ?di)" if "d \<in> set ?docs" for d
  proof (cases "length ?docs = 1")
    case True
    then obtain x where x: "?docs = [x]"
      by (cases ?docs) auto
    with that have "originalName d = hd (map originalName ?docs)" by simp
    then have "sublist (originalName d) ([CHR 0x27] @ hd (map originalName ?docs) @ [CHR 0x27] @ ''.'')"
      by (metis sublist_appendI)
    then show ?thesis
      unfolding eq1 [OF True] by (rule sublist_in_right)
  next
    case False
    have "sublist (originalName d) (py_join '', '' (map originalName ?docs))"
      using that by (intro sublist_py_join) auto
    then show ?thesis
      unfolding eqn [OF False]
      by (intro sublist_in_right sublist_in_left)
  qed
  show ?thesis
    using run cnt nms by (simp add: py_in_sublist)
qed

theorem system_status_answer_witness:
  "get_chat_session (db_fault ex_env GetSession) ex_store ''c2'' =
       Inr (Some \<lparr>chat_id = ''c2'', name = ''Notes''\<rparr>)
   \<and> get_multi_document_retriever ex_env ex_store (map doc_id (session_documents ex_store ''c2'')) =
       (Inr (Some ex_retriever_c2), [EmbedDocuments [''alpha'', ''gamma'']])
   \<and> is_system_question ''How many documents are loaded?''
   \<and> \<not> db_fault ex_env SaveSystem
   \<and> (\<exists>rep s' txts.
         ask_question ex_env ex_store ''c2'' ''How many documents are loaded?'' =
           (rep, s', [EmbedDocuments txts])
         \<and> tier rep = SystemStatus
         \<and> result rep = system_answer
              \<lparr>names = map originalName (session_documents ex_store ''c2''),
               count = length (session_documents ex_store ''c2''),
               total_size = sum_list (map fileSize (session_documents ex_store ''c2''))\<rparr>
         \<and> py_in (str_of_nat (length (session_documents ex_store ''c2''))) (result rep)
         \<and> (\<forall>d \<in> set (session_documents ex_store ''c2''). py_in (originalName d) (result rep)))"
proof -
  have chat: "get_chat_session (db_fault ex_env GetSession) ex_store ''c2'' =
       Inr (Some \<lparr>chat_id = ''c2'', name = ''Notes''\<rparr>)" by code_simp
  have retr: "get_multi_document_retriever ex_env ex_store (map doc_id (session_documents ex_store ''c2'')) =
       (Inr (Some ex_retriever_c2), [EmbedDocuments [''alpha'', ''gamma'']])" by code_simp
  have sys: "is_system_question ''How many documents are loaded?''" by code_simp
  have save: "\<not> db_fault ex_env SaveSystem" by code_simp
  show ?thesis
    by (intro conjI chat retr sys save system_status_answer [OF chat retr sys save])
qed

text \<open>
  The claim as stated fails twice. A chat whose document has no chunks gets the fixed
  "no content" reply, which does not name the document; and with chunks, the run embeds
  the chunk texts before it looks at the question.
\<close>

theorem system_status_answer_counterexample:
  "session_documents ex_store_no_chunks ''c2'' = [ex_doc1]
   \<and> is_system_question ''How many documents are loaded?''
   \<and> fst (ask_question ex_env ex_store_no_chunks ''c2'' ''How many documents are loaded?'') =
       no_content_reply
   \<and> \<not> py_in (originalName ex_doc1) (result no_content_reply)
   \<and> snd (snd (ask_question ex_env ex_store ''c2'' ''How many documents are loaded?'')) =
       [EmbedDocuments [''alpha'', ''gamma'']]"
  by code_simp








section \<open>Properties of adding a document to a chat\<close>









lemma session_documents_sessions_upd [simp]:
  "session_documents (s\<lparr>chat_sessions := cs\<rparr>) cid = session_documents s cid"
  by (simp add: session_documents_def cong: if_cong)






section \<open>Properties of the chunker\<close>

lemma length_py_strip: "length (py_strip s) \<le> length s"
proof -
  have "length (dropWhile is_space (rev (dropWhile is_space s))) \<le> length (rev (dropWhile is_space s))"
    by (rule length_dropWhile_le)
  also have "\<dots> \<le> length s"
    by (simp add: length_dropWhile_le)
  finally show ?thesis by (simp add: py_strip_def)
qed

lemma join_docs_bound: "c \<in> set (join_docs cur) \<Longrightarrow> length c \<le> length (concat cur)"
  using length_py_strip [of "concat cur"]
  by (auto simp: join_docs_def Let_def split: if_splits)

lemma drop_front_inv:
  "drop_front csize overlap len_d cur tot = (cur', tot') \<Longrightarrow> tot = length (concat cur) \<Longrightarrow>
     tot' = length (concat cur') \<and> (tot' + len_d \<le> csize \<or> tot' = 0)"
proof (induction csize overlap len_d cur tot rule: drop_front.induct)
  case (1 csize overlap len_d tot)
  then show ?case by simp
next
  case (2 csize overlap len_d x rest tot)
  show ?case
  proof (cases "tot > overlap \<or> (tot + len_d > csize \<and> tot > 0)")
    case True
    then have "drop_front csize overlap len_d rest (tot - length x) = (cur', tot')"
      using 2(2) by simp
    moreover have "tot - length x = length (concat rest)"
      using 2(3) by simp
    ultimately show ?thesis
      using 2(1) True by blast
  next
    case False
    then show ?thesis using 2(2,3) by auto
  qed
qed

lemma merge_loop_bound:
  "\<forall>d \<in> set ds. length d < csize \<Longrightarrow> tot = length (concat cur) \<Longrightarrow> tot \<le> csize \<Longrightarrow>
     \<forall>c \<in> set (merge_loop csize overlap ds cur tot). length c \<le> csize"
proof (induction ds arbitrary: cur tot)
  case Nil
  then show ?case by (auto dest: join_docs_bound)
next
  case (Cons d ds)
  have d: "length d < csize" using Cons.prems(1) by simp
  have ds: "\<forall>d \<in> set ds. length d < csize" using Cons.prems(1) by simp
  show ?case
  proof (cases "tot + length d > csize \<and> cur \<noteq> []")
    case True
    obtain cur' tot' where df: "drop_front csize overlap (length d) cur tot = (cur', tot')"
      by (cases "drop_front csize overlap (length d) cur tot") auto
    from drop_front_inv [OF df Cons.prems(2)]
    have inv: "tot' = length (concat cur')" and fit: "tot' + length d \<le> csize \<or> tot' = 0"
      by auto
    have "tot' + length d = length (concat (cur' @ [d]))" using inv by simp
    moreover have "tot' + length d \<le> csize" using fit d by auto
    ultimately have "\<forall>c \<in> set (merge_loop csize overlap ds (cur' @ [d]) (tot' + length d)). length c \<le> csize"
      using Cons.IH [OF ds] by blast
    moreover have "\<forall>c \<in> set (join_docs cur). length c \<le> csize"
      using Cons.prems(2,3) by (auto dest: join_docs_bound)
    ultimately show ?thesis
      using True df by auto
  next
    case False
    have "tot + length d = length (concat (cur @ [d]))" using Cons.prems(2) by simp
    moreover have "tot + length d \<le> csize"
      using False d Cons.prems(2) by (cases "cur = []") auto
    ultimately have "\<forall>c \<in> set (merge_loop csize overlap ds (cur @ [d]) (tot + length d)). length c \<le> csize"
      using Cons.IH [OF ds] by blast
    then show ?thesis using False by auto
  qed
qed

lemma merge_splits_bound:
  "\<forall>d \<in> set ds. length d < csize \<Longrightarrow> \<forall>c \<in> set (merge_splits csize overlap ds). length c \<le> csize"
  unfolding merge_splits_def by (rule merge_loop_bound) simp_all

lemma assemble_bound:
  "\<forall>x \<in> set ps. (case x of Inl p \<Rightarrow> length p < csize | Inr cs \<Rightarrow> \<forall>c \<in> set cs. length c \<le> csize) \<Longrightarrow>
   \<forall>d \<in> set good. length d < csize \<Longrightarrow>
   \<forall>c \<in> set (assemble csize overlap ps good). length c \<le> csize"
proof (induction csize overlap ps good rule: assemble.induct)
  case (1 csize overlap good)
  then show ?case using merge_splits_bound by auto
next
  case (2 csize overlap p ps good)
  then show ?case by simp
next
  case (3 csize overlap cs ps good)
  have "\<forall>c \<in> set (assemble csize overlap ps []). length c \<le> csize"
    using 3 by simp
  moreover have "\<forall>c \<in> set (if good \<noteq> [] then merge_splits csize overlap good else []). length c \<le> csize"
    using merge_splits_bound [of good csize overlap] 3(3) by auto
  moreover have "\<forall>c \<in> set cs. length c \<le> csize"
    using 3(2) by simp
  ultimately show ?case by auto
qed

lemma split_text_bound:
  "[] \<in> set seps \<Longrightarrow> 1 < csize \<Longrightarrow> \<forall>c \<in> set (split_text csize overlap seps t). length c \<le> csize"
proof (induction csize overlap seps t rule: split_text.induct)
  case (1 csize overlap t)
  then show ?case by simp
next
  case (2 csize overlap sep rest t)
  show ?case
  proof (cases "sep = []")
    case True
    have "\<forall>c \<in> set (assemble csize overlap
          (map (\<lambda>p. if length p < csize then Inl p else Inr [p]) (map (\<lambda>c. [c]) t)) []). length c \<le> csize"
      by (rule assemble_bound) (use 2(4) in auto)
    then show ?thesis using True by simp
  next
    case False
    then have rest: "[] \<in> set rest" "rest \<noteq> []" using 2(3) by auto
    show ?thesis
    proof (cases "py_in sep t")
      case True
      have "\<forall>c \<in> set (assemble csize overlap
            (map (\<lambda>p. if length p < csize then Inl p
                       else Inr (if rest = [] then [p] else split_text csize overlap rest p))
               (split_keep sep t)) []). length c \<le> csize"
      proof (rule assemble_bound)
        show "\<forall>x \<in> set (map (\<lambda>p. if length p < csize then Inl p
                       else Inr (if rest = [] then [p] else split_text csize overlap rest p))
               (split_keep sep t)).
              (case x of Inl p \<Rightarrow> length p < csize | Inr cs \<Rightarrow> \<forall>c \<in> set cs. length c \<le> csize)"
          using 2(1) [OF False True] rest 2(4) by auto
      qed simp
      then show ?thesis using False True by simp
    next
      case nf: False
      then show ?thesis using 2(2) [OF False nf rest(1) 2(4)] False by simp
    qed
  qed
qed

text \<open>
  Claim C7. For every text, the chunks that \<open>chunk_text\<close> returns carry the indices
  \<open>0, 1, 2, ...\<close> in order, the content of each has at most 1000 characters, and the
  empty text gives no chunk. The indices come from \<^verbatim>\<open>enumerate\<close> in \<open>chunk_text\<close>
  itself; the length bound and the empty case are those of the splitter as modelled
  above.
\<close>

theorem chunk_text_indices_and_bound:
  "map chunk_index (chunk_text t) = [0..<length (chunk_text t)]
   \<and> (\<forall>c \<in> set (chunk_text t). length (dict_content c) \<le> 1000)
   \<and> chunk_text [] = []"
proof (intro conjI)
  let ?ps = "split_text CHUNK_SIZE CHUNK_OVERLAP separators t"
  have "map chunk_index (chunk_text t) = map fst (enumerate 0 ?ps)"
    by (simp add: chunk_text_def split_def comp_def)
  moreover have "length (chunk_text t) = length ?ps"
    by (simp add: chunk_text_def)
  ultimately show "map chunk_index (chunk_text t) = [0..<length (chunk_text t)]"
    by (simp add: map_fst_enumerate)
  have "\<forall>c \<in> set ?ps. length c \<le> CHUNK_SIZE"
    by (rule split_text_bound) (simp_all add: separators_def CHUNK_SIZE_def)
  then show "\<forall>c \<in> set (chunk_text t). length (dict_content c) \<le> 1000"
    by (auto simp: chunk_text_def CHUNK_SIZE_def enumerate_eq_zip dest!: set_zip_rightD)
  show "chunk_text [] = []"
    by (simp add: chunk_text_def separators_def merge_splits_def)
qed

theorem chunk_text_indices_and_bound_witness:
  "chunk_text ''hello world'' = [\<lparr>dict_content = ''hello world'', chunk_index = 0\<rparr>]
   \<and> map chunk_index (chunk_text ''hello world'') = [0..<length (chunk_text ''hello world'')]
   \<and> length (dict_content (hd (chunk_text ''hello world''))) \<le> 1000"
proof -
  have e: "chunk_text ''hello world'' = [\<lparr>dict_content = ''hello world'', chunk_index = 0\<rparr>]"
    by code_simp
  note th = chunk_text_indices_and_bound [of "''hello world''"]
  have "hd (chunk_text ''hello world'') \<in> set (chunk_text ''hello world'')"
    unfolding e by simp
  then have "length (dict_content (hd (chunk_text ''hello world''))) \<le> 1000"
    using th by blast
  then show ?thesis
    using e th by blast
qed

end
